theory Spec2Isabelle
  imports Main
begin

section \<open>The development bridge HTTP client (src/lib/dev-bridge/http-client.ts)\<close>

text \<open>
  The module talks to a running backend over HTTP when the page is not hosted in the
  native webview. It has four exported functions: \<open>isDevBridgeAvailable\<close>,
  \<open>invokeViaHttp\<close>, \<open>healthCheck\<close> and \<open>getBridgeStatus\<close>. Each of them is
  embedded below under its own name. What the module takes from the platform (the
  globals \<open>window\<close> and \<open>location\<close>, the build flag \<open>import.meta.env.DEV\<close>,
  \<open>fetch\<close>, \<open>JSON.stringify\<close>, the console) is made explicit: the globals are a
  record, \<open>fetch\<close> and \<open>JSON.stringify\<close> are parameters, and the requests sent and
  the console lines written are collected in a state that every effectful function
  takes and returns.
\<close>

subsection \<open>Values, exceptions and promises\<close>

text \<open>
  Values of type \<open>unknown\<close> (command arguments, command results, the native marker
  \<open>window.__TAURI__\<close>) are tree-shaped values: what a JSON text denotes, and
  \<open>undefined\<close>. Numbers are the integers that print as a decimal numeral (magnitude
  below \<open>10^21\<close>). On these values \<open>JSON.stringify\<close> of an object always yields a
  string. The list of a \<open>JObj\<close> holds the own properties of the object, each key once.
\<close>

datatype jsval =
    JUndefined
  | JNull
  | JBool bool
  | JNum int
  | JStr string
  | JArr "jsval list"
  | JObj "(string \<times> jsval) list"

text \<open>The conversion to a boolean that \<open>!\<close>, \<open>&&\<close>, \<open>||\<close>, \<open>?:\<close> and \<open>if\<close> apply.\<close>

fun truthy :: "jsval \<Rightarrow> bool" where
  "truthy JUndefined = False"
| "truthy JNull = False"
| "truthy (JBool b) = b"
| "truthy (JNum n) = (n \<noteq> 0)"
| "truthy (JStr s) = (s \<noteq> [])"
| "truthy (JArr xs) = True"
| "truthy (JObj ps) = True"

text \<open>\<open>a && b\<close> and \<open>a || b\<close> return one of their operands, not a boolean.\<close>

definition js_and :: "jsval \<Rightarrow> jsval \<Rightarrow> jsval" where
  "js_and a b = (if truthy a then b else a)"

definition js_or :: "jsval \<Rightarrow> jsval \<Rightarrow> jsval" where
  "js_or a b = (if truthy a then a else b)"

text \<open>
  What can be thrown. \<open>Error\<close> is what the module itself constructs with
  \<open>new Error(message)\<close>; the others are what the platform throws: \<open>fetch\<close> rejects
  with a \<open>TypeError\<close> when no response arrives and with an \<open>AbortError\<close> when the
  request is aborted, \<open>response.json()\<close> rejects with a \<open>SyntaxError\<close> when the body
  is not JSON.
\<close>

datatype exn =
    Error string
  | TypeError string
  | SyntaxError string
  | AbortError string

text \<open>How an \<open>async\<close> function ends: its promise is fulfilled with a value, or rejected
  with what was thrown.\<close>

datatype 'a promise = Resolved 'a | Rejected exn

text \<open>A template literal renders a non-negative integer in decimal.\<close>

fun number_toString :: "nat \<Rightarrow> string" where
  "number_toString n =
     (if n < 10 then [char_of (48 + n)]
      else number_toString (n div 10) @ [char_of (48 + n mod 10)])"

declare number_toString.simps [simp del]

definition decimal_value :: "string \<Rightarrow> nat" where
  "decimal_value s = foldl (\<lambda>a c. 10 * a + (of_char c - 48)) 0 s"

text \<open>
  The conversion to a string that \<open>new Error(message)\<close> applies to a message that is
  not \<open>undefined\<close>. An array prints its elements separated by commas, with
  \<open>null\<close> and \<open>undefined\<close> elements printed as nothing; an object prints as
  \<open>[object Object]\<close>.
\<close>

fun join_comma :: "string list \<Rightarrow> string" where
  "join_comma [] = []"
| "join_comma [x] = x"
| "join_comma (x # y # ys) = x @ '','' @ join_comma (y # ys)"

fun js_toString :: "jsval \<Rightarrow> string" where
  "js_toString JUndefined = ''undefined''"
| "js_toString JNull = ''null''"
| "js_toString (JBool b) = (if b then ''true'' else ''false'')"
| "js_toString (JNum n) =
     (if n < 0 then ''-'' @ number_toString (nat (- n)) else number_toString (nat n))"
| "js_toString (JStr s) = s"
| "js_toString (JArr xs) =
     join_comma (map (\<lambda>v. if v = JNull \<or> v = JUndefined then [] else js_toString v) xs)"
| "js_toString (JObj ps) = ''[object Object]''"

subsection \<open>The wire types\<close>

text \<open>\<open>const BRIDGE_URL = "http://127.0.0.1:3030/invoke"\<close>\<close>

definition BRIDGE_URL :: string where
  "BRIDGE_URL = ''http://127.0.0.1:3030/invoke''"

text \<open>\<open>interface InvokeRequest { cmd: string; args?: unknown }\<close>\<close>

record InvokeRequest =
  cmd :: string
  args :: "jsval option"

text \<open>\<open>interface InvokeResponse { result?: unknown; error?: string }\<close>\<close>

record InvokeResponse =
  result :: "jsval option"
  error :: "string option"

text \<open>Reading an optional property that is absent gives \<open>undefined\<close>.\<close>

fun property :: "jsval option \<Rightarrow> jsval" where
  "property None = JUndefined"
| "property (Some v) = v"

text \<open>
  The type annotation \<open>const data: InvokeResponse\<close> is erased when the program runs:
  \<open>await response.json()\<close> gives whatever value the body denotes. \<open>field\<close> is the
  property \<open>k\<close> that a value carries, if any: only an object carries \<open>error\<close> or
  \<open>result\<close>. \<open>get_property\<close> is the expression \<open>data.k\<close> for these two names:
  it throws a \<open>TypeError\<close> on \<open>null\<close> and \<open>undefined\<close> (the message is the
  engine's), and gives \<open>undefined\<close> for a property that the value does not carry.
\<close>

fun field :: "jsval \<Rightarrow> string \<Rightarrow> jsval option" where
  "field (JObj ps) k = map_of ps k"
| "field v k = None"

fun get_property :: "jsval \<Rightarrow> string \<Rightarrow> exn + jsval" where
  "get_property JNull k =
     Inl (TypeError (''Cannot read properties of null (reading '' @ [CHR 0x27] @ k
                       @ [CHR 0x27] @ '')''))"
| "get_property JUndefined k =
     Inl (TypeError (''Cannot read properties of undefined (reading '' @ [CHR 0x27] @ k
                       @ [CHR 0x27] @ '')''))"
| "get_property v k = Inr (property (field v k))"

text \<open>The value that a body of the declared type denotes: an object with the fields that
  are present.\<close>

definition response_json :: "InvokeResponse \<Rightarrow> jsval" where
  "response_json d =
     JObj ((case result d of None \<Rightarrow> [] | Some v \<Rightarrow> [(''result'', v)]) @
           (case error d of None \<Rightarrow> [] | Some m \<Rightarrow> [(''error'', JStr m)]))"

text \<open>The second argument of \<open>fetch\<close>, with the address.\<close>

record http_request =
  url :: string
  http_method :: string
  headers :: "(string \<times> string) list"
  body :: string

text \<open>
  What the module reads of a \<open>Response\<close>: the status code, the status text, and what
  \<open>await response.json()\<close> gives for the body: the value that the body denotes, or
  the exception thrown on a body that is not JSON.
\<close>

record response =
  status :: nat
  statusText :: string
  json :: "exn + jsval"

text \<open>\<open>response.ok\<close> is the platform's getter: true for a status from 200 to 299.\<close>

definition ok :: "response \<Rightarrow> bool" where
  "ok r = (200 \<le> status r \<and> status r \<le> 299)"

subsection \<open>Effects\<close>

text \<open>
  A console line keeps the command and the value logged with it; the fixed prefix of the
  message is left out. The state is the requests handed to \<open>fetch\<close> so far and the
  console so far, both oldest first.
\<close>

datatype console_entry =
    ConsoleLog string jsval
  | ConsoleError string exn

record world =
  requests :: "http_request list"
  console :: "console_entry list"

type_synonym stringifier = "InvokeRequest \<Rightarrow> string"

type_synonym network = "http_request \<Rightarrow> exn + response"

subsection \<open>isDevBridgeAvailable and getBridgeStatus\<close>

text \<open>
  The ambient state the two functions read: whether the global \<open>window\<close> exists, the
  value of \<open>window.__TAURI__\<close> (\<open>undefined\<close> when the property is absent; not read
  when there is no \<open>window\<close>), the flag \<open>import.meta.env.DEV\<close> and
  \<open>location.hostname\<close>.
\<close>

record environment =
  window_defined :: bool
  window_TAURI :: jsval
  env_DEV :: bool
  location_hostname :: string

definition isDevBridgeAvailable :: "environment \<Rightarrow> bool" where
  "isDevBridgeAvailable env =
     (let isBrowser =
            (window_defined env \<and>
             \<not> truthy (window_TAURI env) \<and>
             (env_DEV env \<or>
              location_hostname env = ''localhost'' \<or>
              location_hostname env = ''127.0.0.1''))
      in isBrowser)"

text \<open>\<open>mode: "tauri" | "http" | "mock"\<close>\<close>

datatype bridge_mode = Tauri | Http | Mock

text \<open>
  \<open>interface BridgeStatus\<close>. The interface declares \<open>available\<close> and \<open>connected\<close>
  boolean, but \<open>hasTauri\<close> is the value of an \<open>&&\<close>, so at run time the two fields
  can hold the marker itself.
\<close>

record BridgeStatus =
  available :: jsval
  connected :: jsval
  mode :: bridge_mode

definition getBridgeStatus :: "environment \<Rightarrow> BridgeStatus" where
  "getBridgeStatus env =
     (let hasTauri = js_and (JBool (window_defined env)) (window_TAURI env);
          devAvailable = isDevBridgeAvailable env
      in \<lparr> available = js_or hasTauri (JBool devAvailable),
           connected = hasTauri,
           mode = (if truthy hasTauri then Tauri
                   else if devAvailable then Http else Mock) \<rparr>)"

text \<open>The native marker is present: there is a \<open>window\<close> and its \<open>__TAURI__\<close> is
  truthy, which is the test both functions apply to it.\<close>

definition marker_present :: "environment \<Rightarrow> bool" where
  "marker_present env = (window_defined env \<and> truthy (window_TAURI env))"

definition local_dev_host :: "string \<Rightarrow> bool" where
  "local_dev_host h = (h = ''localhost'' \<or> h = ''127.0.0.1'')"

subsection \<open>invokeViaHttp\<close>

text \<open>The request that \<open>invokeViaHttp\<close> hands to \<open>fetch\<close>.\<close>

definition invoke_request :: "stringifier \<Rightarrow> string \<Rightarrow> jsval option \<Rightarrow> http_request" where
  "invoke_request stringify c a =
     \<lparr> url = BRIDGE_URL,
       http_method = ''POST'',
       headers = [(''Content-Type'', ''application/json'')],
       body = stringify \<lparr> cmd = c, args = a \<rparr> \<rparr>"

text \<open>What follows the \<open>await fetch(...)\<close> inside the \<open>try\<close> block: \<open>Inl\<close> is a throw.\<close>

definition invoke_response :: "exn + response \<Rightarrow> exn + jsval" where
  "invoke_response fetched =
     (case fetched of
        Inl e \<Rightarrow> Inl e
      | Inr r \<Rightarrow>
          if \<not> ok r
          then Inl (Error (''HTTP '' @ number_toString (status r) @ '': '' @ statusText r))
          else (case json r of
                  Inl e \<Rightarrow> Inl e
                | Inr data \<Rightarrow>
                    (case get_property data ''error'' of
                       Inl e \<Rightarrow> Inl e
                     | Inr err \<Rightarrow>
                         if truthy err then Inl (Error (js_toString err))
                         else get_property data ''result'')))"

text \<open>
  The whole function: the console line, the request, the \<open>try\<close> block, and the
  \<open>catch\<close> clause, which writes the exception to the console and throws it again.
\<close>

definition invokeViaHttp ::
  "stringifier \<Rightarrow> network \<Rightarrow> string \<Rightarrow> jsval option \<Rightarrow> world \<Rightarrow> jsval promise \<times> world" where
  "invokeViaHttp stringify fetch c a w =
     (let w1 = w\<lparr> console := console w @ [ConsoleLog c (property a)] \<rparr>;
          req = invoke_request stringify c a;
          w2 = w1\<lparr> requests := requests w1 @ [req] \<rparr>
      in case invoke_response (fetch req) of
           Inr v \<Rightarrow> (Resolved v, w2)
         | Inl e \<Rightarrow> (Rejected e, w2\<lparr> console := console w2 @ [ConsoleError c e] \<rparr>))"

subsection \<open>healthCheck\<close>

definition health_request :: "stringifier \<Rightarrow> http_request" where
  "health_request stringify =
     \<lparr> url = BRIDGE_URL,
       http_method = ''POST'',
       headers = [(''Content-Type'', ''application/json'')],
       body = stringify \<lparr> cmd = ''get_server_status'', args = None \<rparr> \<rparr>"

definition healthCheck :: "stringifier \<Rightarrow> network \<Rightarrow> world \<Rightarrow> bool promise \<times> world" where
  "healthCheck stringify fetch w =
     (let req = health_request stringify;
          w1 = w\<lparr> requests := requests w @ [req] \<rparr>
      in case fetch req of
           Inr r \<Rightarrow> (Resolved (ok r), w1)
         | Inl e \<Rightarrow> (Resolved False, w1))"

subsection \<open>Sample inputs\<close>

text \<open>
  \<open>JSON.stringify\<close> on the requests used in the examples below: no \<open>args\<close>, and a
  command name that needs no escaping.
\<close>

definition stringify_plain :: stringifier where
  "stringify_plain r = ''{'' @ [CHR 0x22] @ ''cmd'' @ [CHR 0x22] @ '':''
                         @ [CHR 0x22] @ cmd r @ [CHR 0x22] @ ''}''"

definition world0 :: world where
  "world0 = \<lparr> requests = [], console = [] \<rparr>"

text \<open>Networks: nothing listens; the backend answers every request the same way.\<close>

definition refused :: network where
  "refused req = Inl (TypeError ''Failed to fetch'')"

definition answers :: "response \<Rightarrow> network" where
  "answers r req = Inr r"

definition response_500 :: response where
  "response_500 = \<lparr> status = 500, statusText = ''Internal Server Error'',
                    json = Inl (SyntaxError ''Unexpected end of JSON input'') \<rparr>"

definition response_404 :: response where
  "response_404 = \<lparr> status = 404, statusText = ''Not Found'',
                    json = Inr (response_json
                            \<lparr> result = None, error = Some ''no such command'' \<rparr>) \<rparr>"

definition response_result :: response where
  "response_result = \<lparr> status = 200, statusText = ''OK'',
                       json = Inr (response_json
                            \<lparr> result = Some (JNum 7), error = None \<rparr>) \<rparr>"

definition response_error :: response where
  "response_error = \<lparr> status = 200, statusText = ''OK'',
                      json = Inr (response_json
                            \<lparr> result = None, error = Some ''duplicate credential'' \<rparr>) \<rparr>"

definition response_empty :: response where
  "response_empty = \<lparr> status = 200, statusText = ''OK'',
                      json = Inr (response_json
                            \<lparr> result = None, error = None \<rparr>) \<rparr>"

definition response_empty_error :: response where
  "response_empty_error = \<lparr> status = 200, statusText = ''OK'',
                            json = Inr (response_json
                            \<lparr> result = None, error = Some [] \<rparr>) \<rparr>"

definition response_null :: response where
  "response_null = \<lparr> status = 200, statusText = ''OK'', json = Inr JNull \<rparr>"



definition response_not_json :: response where
  "response_not_json = \<lparr> status = 200, statusText = ''OK'',
                         json = Inl (SyntaxError ''Unexpected token'') \<rparr>"

text \<open>Environments: the native webview; a browser page served by the development
  server under another host name; a production page on a foreign host; a worker, which
  has a location but no \<open>window\<close>.\<close>

definition env_native :: environment where
  "env_native = \<lparr> window_defined = True, window_TAURI = JObj [],
                  env_DEV = False, location_hostname = ''tauri.localhost'' \<rparr>"

definition env_dev_lan :: environment where
  "env_dev_lan = \<lparr> window_defined = True, window_TAURI = JUndefined,
                   env_DEV = True, location_hostname = ''192.168.1.20'' \<rparr>"

definition env_localhost :: environment where
  "env_localhost = \<lparr> window_defined = True, window_TAURI = JUndefined,
                     env_DEV = False, location_hostname = ''localhost'' \<rparr>"

definition env_foreign :: environment where
  "env_foreign = \<lparr> window_defined = True, window_TAURI = JUndefined,
                   env_DEV = False, location_hostname = ''example.com'' \<rparr>"

definition env_worker :: environment where
  "env_worker = \<lparr> window_defined = False, window_TAURI = JUndefined,
                  env_DEV = False, location_hostname = ''localhost'' \<rparr>"

section \<open>Basic facts\<close>

lemma decimal_value_number_toString: "decimal_value (number_toString n) = n"
proof (induction n rule: number_toString.induct)
  case (1 n)
  show ?case
  proof (cases "n < 10")
    case True
    then show ?thesis
      by (subst number_toString.simps) (simp add: decimal_value_def)
  next
    case False
    with 1 show ?thesis
      by (subst number_toString.simps) (simp add: decimal_value_def)
  qed
qed

lemma number_toString_inj: "number_toString m = number_toString n \<Longrightarrow> m = n"
  by (metis decimal_value_number_toString)


lemma number_toString_404: "number_toString 404 = ''404''"
  by code_simp



lemma get_property_not_null:
  "data \<noteq> JNull \<and> data \<noteq> JUndefined \<Longrightarrow>
     get_property data k = Inr (property (field data k))"
  by (cases data) simp_all


lemma invokeViaHttp_outcome:
  "fst (invokeViaHttp stringify fetch c a w) =
     (case invoke_response (fetch (invoke_request stringify c a)) of
        Inr v \<Rightarrow> Resolved v
      | Inl e \<Rightarrow> Rejected e)"
  by (simp add: invokeViaHttp_def Let_def split: sum.splits)

lemma invokeViaHttp_requests:
  "requests (snd (invokeViaHttp stringify fetch c a w)) =
     requests w @ [invoke_request stringify c a]"
  by (simp add: invokeViaHttp_def Let_def split: sum.splits)

lemma invokeViaHttp_console:
  "console (snd (invokeViaHttp stringify fetch c a w)) =
     console w @ [ConsoleLog c (property a)] @
       (case invoke_response (fetch (invoke_request stringify c a)) of
          Inr v \<Rightarrow> []
        | Inl e \<Rightarrow> [ConsoleError c e])"
  by (simp add: invokeViaHttp_def Let_def split: sum.splits)

lemma healthCheck_outcome:
  "fst (healthCheck stringify fetch w) =
     (case fetch (health_request stringify) of
        Inr r \<Rightarrow> Resolved (ok r)
      | Inl e \<Rightarrow> Resolved False)"
  by (simp add: healthCheck_def Let_def split: sum.splits)

lemma healthCheck_requests:
  "requests (snd (healthCheck stringify fetch w)) =
     requests w @ [health_request stringify]"
  by (simp add: healthCheck_def Let_def split: sum.splits)

lemma mode_getBridgeStatus:
  "mode (getBridgeStatus env) =
     (if marker_present env then Tauri
      else if isDevBridgeAvailable env then Http else Mock)"
  by (simp add: getBridgeStatus_def Let_def js_and_def marker_present_def)

section \<open>The mode decision and the bridge status\<close>

text \<open>
  C3, as the code decides it. The mode is \<open>tauri\<close> when the native marker is present,
  whatever the host name. Without the marker it is \<open>http\<close> when there is a
  \<open>window\<close> and either the build is a development build
  (\<open>import.meta.env.DEV\<close>) or the host name is \<open>localhost\<close> or \<open>127.0.0.1\<close>.
  In every other case it is \<open>mock\<close>.
\<close>

theorem getBridgeStatus_mode_decision:
  "mode (getBridgeStatus env) =
     (if marker_present env then Tauri
      else if window_defined env \<and>
              (env_DEV env \<or> local_dev_host (location_hostname env)) then Http
      else Mock)"
  by (auto simp add: mode_getBridgeStatus isDevBridgeAvailable_def Let_def
        marker_present_def local_dev_host_def)

theorem getBridgeStatus_mode_decision_witness:
  "mode (getBridgeStatus env_native) = Tauri \<and>
   mode (getBridgeStatus env_localhost) = Http \<and>
   mode (getBridgeStatus env_dev_lan) = Http \<and>
   mode (getBridgeStatus env_foreign) = Mock \<and>
   mode (getBridgeStatus env_worker) = Mock"
  using getBridgeStatus_mode_decision [of env_native]
    getBridgeStatus_mode_decision [of env_localhost]
    getBridgeStatus_mode_decision [of env_dev_lan]
    getBridgeStatus_mode_decision [of env_foreign]
    getBridgeStatus_mode_decision [of env_worker]
  by (simp add: env_native_def env_localhost_def env_dev_lan_def env_foreign_def
        env_worker_def marker_present_def local_dev_host_def)

text \<open>
  C3 as the specification words it fails on a page served by a development build under
  a host name that is neither \<open>localhost\<close> nor \<open>127.0.0.1\<close>: no marker, no
  recognised host, and the mode is \<open>http\<close>, not \<open>mock\<close>.
\<close>

theorem mode_decision_dev_build_counterexample:
  "\<not> marker_present env_dev_lan \<and>
   \<not> local_dev_host (location_hostname env_dev_lan) \<and>
   mode (getBridgeStatus env_dev_lan) = Http \<and>
   mode (getBridgeStatus env_dev_lan) \<noteq> Mock"
  by (simp add: getBridgeStatus_def isDevBridgeAvailable_def Let_def js_and_def
        env_dev_lan_def marker_present_def local_dev_host_def)

text \<open>
  C9: every status that \<open>getBridgeStatus\<close> returns has \<open>connected\<close> truthy only
  if \<open>available\<close> is truthy, has mode \<open>tauri\<close> exactly when the native marker is
  present, and has mode \<open>mock\<close> exactly when \<open>available\<close> is \<open>false\<close> (which is
  also exactly when \<open>available\<close> is not truthy).
\<close>

theorem getBridgeStatus_invariants:
  "(truthy (connected (getBridgeStatus env)) \<longrightarrow> truthy (available (getBridgeStatus env))) \<and>
   (mode (getBridgeStatus env) = Tauri \<longleftrightarrow> marker_present env) \<and>
   (mode (getBridgeStatus env) = Mock \<longleftrightarrow> available (getBridgeStatus env) = JBool False) \<and>
   (mode (getBridgeStatus env) = Mock \<longleftrightarrow> \<not> truthy (available (getBridgeStatus env)))"
  by (cases "window_defined env"; cases "truthy (window_TAURI env)")
     (auto simp add: getBridgeStatus_def Let_def js_and_def js_or_def marker_present_def
        isDevBridgeAvailable_def)

theorem getBridgeStatus_invariants_witness:
  "truthy (connected (getBridgeStatus env_native)) \<and>
   truthy (available (getBridgeStatus env_native)) \<and>
   mode (getBridgeStatus env_native) = Tauri \<and>
   marker_present env_native \<and>
   mode (getBridgeStatus env_foreign) = Mock \<and>
   available (getBridgeStatus env_foreign) = JBool False"
  using getBridgeStatus_invariants [of env_native] getBridgeStatus_invariants [of env_foreign]
  by (simp add: getBridgeStatus_def Let_def js_and_def js_or_def marker_present_def
        isDevBridgeAvailable_def env_native_def env_foreign_def)

section \<open>invokeViaHttp\<close>

text \<open>
  C8: every call of \<open>invokeViaHttp\<close>, in Network mode as in any other, hands
  exactly one request to \<open>fetch\<close>: a POST to \<open>http://127.0.0.1:3030/invoke\<close>
  whose only header is \<open>Content-Type: application/json\<close> and whose body is the JSON
  text of the object with the properties \<open>cmd\<close> and \<open>args\<close> of the call.
\<close>

theorem invokeViaHttp_single_post:
  "requests (snd (invokeViaHttp stringify fetch c a w)) =
     requests w @
       [\<lparr> url = ''http://127.0.0.1:3030/invoke'',
          http_method = ''POST'',
          headers = [(''Content-Type'', ''application/json'')],
          body = stringify \<lparr> cmd = c, args = a \<rparr> \<rparr>]"
  by (simp add: invokeViaHttp_requests invoke_request_def BRIDGE_URL_def)

theorem invokeViaHttp_single_post_witness:
  "mode (getBridgeStatus env_localhost) = Http \<and>
   requests (snd (invokeViaHttp stringify_plain (answers response_result)
                    ''get_server_status'' None world0)) =
     [\<lparr> url = ''http://127.0.0.1:3030/invoke'',
        http_method = ''POST'',
        headers = [(''Content-Type'', ''application/json'')],
        body = ''{'' @ [CHR 0x22] @ ''cmd'' @ [CHR 0x22] @ '':'' @ [CHR 0x22]
                 @ ''get_server_status'' @ [CHR 0x22] @ ''}'' \<rparr>]"
  using invokeViaHttp_single_post
          [of stringify_plain "answers response_result" "''get_server_status''" None world0]
  by (simp add: stringify_plain_def world0_def mode_getBridgeStatus marker_present_def
        isDevBridgeAvailable_def env_localhost_def)

text \<open>
  C5: when the response that \<open>invokeViaHttp\<close> receives has a status outside 200 to
  299, the call fails with an \<open>Error\<close> whose message is exactly \<open>HTTP\<close>, a space,
  the status code in decimal, a colon, a space, and the status text of the response.
\<close>

theorem invokeViaHttp_http_error_message:
  assumes "fetch (invoke_request stringify c a) = Inr r"
    and "\<not> (200 \<le> status r \<and> status r \<le> 299)"
  shows "fst (invokeViaHttp stringify fetch c a w) =
           Rejected (Error (''HTTP '' @ number_toString (status r) @ '': '' @ statusText r))
         \<and> decimal_value (number_toString (status r)) = status r"
  using assms
  by (simp add: invokeViaHttp_outcome invoke_response_def ok_def
        decimal_value_number_toString)

theorem invokeViaHttp_http_error_message_witness:
  "fst (invokeViaHttp stringify_plain (answers response_404) ''list_providers'' None world0) =
     Rejected (Error ''HTTP 404: Not Found'')"
proof -
  have h1: "answers response_404 (invoke_request stringify_plain ''list_providers'' None)
              = Inr response_404"
    by (simp add: answers_def)
  have h2: "\<not> (200 \<le> status response_404 \<and> status response_404 \<le> 299)"
    by (simp add: response_404_def)
  show ?thesis
    using invokeViaHttp_http_error_message
            [where fetch = "answers response_404" and stringify = stringify_plain
               and c = "''list_providers''" and a = None and r = response_404
               and w = world0, OF h1 h2]
    by (simp add: response_404_def number_toString_404)
qed




text \<open>
  C10, as the code behaves. When the response has a status from 200 to 299 and its body
  is JSON, is not \<open>null\<close>, has no \<open>result\<close> field and has either no \<open>error\<close>
  field or an empty one, the call succeeds with \<open>undefined\<close>, and nothing is written
  to the error console. (No JSON text denotes \<open>undefined\<close>; the hypothesis names it
  because the type of values has it.)
\<close>

theorem invokeViaHttp_empty_body_resolves:
  assumes "fetch (invoke_request stringify c a) = Inr r"
    and "200 \<le> status r \<and> status r \<le> 299"
    and "json r = Inr data"
    and "data \<noteq> JNull \<and> data \<noteq> JUndefined"
    and "field data ''result'' = None"
    and "field data ''error'' = None \<or> field data ''error'' = Some (JStr [])"
  shows "invokeViaHttp stringify fetch c a w =
           (Resolved JUndefined,
            w\<lparr> requests := requests w @ [invoke_request stringify c a],
               console := console w @ [ConsoleLog c (property a)] \<rparr>)"
proof -
  from assms(4) have "get_property data ''error'' = Inr (property (field data ''error''))"
    and "get_property data ''result'' = Inr (property (field data ''result''))"
    by (simp_all add: get_property_not_null)
  with assms show ?thesis
    by (auto simp add: invokeViaHttp_def Let_def invoke_response_def ok_def)
qed

theorem invokeViaHttp_empty_body_resolves_witness:
  "fst (invokeViaHttp stringify_plain (answers response_empty) ''ping'' None world0) =
     Resolved JUndefined \<and>
   fst (invokeViaHttp stringify_plain (answers response_empty_error) ''ping'' None world0) =
     Resolved JUndefined \<and>
   console (snd (invokeViaHttp stringify_plain (answers response_empty) ''ping'' None world0)) =
     [ConsoleLog ''ping'' JUndefined]"
proof -
  have a: "answers r (invoke_request stringify_plain ''ping'' None) = Inr r" for r
    by (simp add: answers_def)
  have a2: "200 \<le> status response_empty \<and> status response_empty \<le> 299"
    by (simp add: response_empty_def)
  have a3: "json response_empty = Inr (JObj [])"
    by (simp add: response_empty_def response_json_def)
  have a4: "JObj [] \<noteq> JNull \<and> JObj [] \<noteq> JUndefined"
    by simp
  have a5: "field (JObj []) ''result'' = None"
    by simp
  have a6: "field (JObj []) ''error'' = None \<or> field (JObj []) ''error'' = Some (JStr [])"
    by simp
  have b2: "200 \<le> status response_empty_error \<and> status response_empty_error \<le> 299"
    by (simp add: response_empty_error_def)
  have b3: "json response_empty_error = Inr (JObj [(''error'', JStr [])])"
    by (simp add: response_empty_error_def response_json_def)
  have b4: "JObj [(''error'', JStr [])] \<noteq> JNull \<and> JObj [(''error'', JStr [])] \<noteq> JUndefined"
    by simp
  have b5: "field (JObj [(''error'', JStr [])]) ''result'' = None"
    by simp
  have b6: "field (JObj [(''error'', JStr [])]) ''error'' = None
            \<or> field (JObj [(''error'', JStr [])]) ''error'' = Some (JStr [])"
    by simp
  show ?thesis
    using invokeViaHttp_empty_body_resolves
            [where fetch = "answers response_empty" and stringify = stringify_plain
               and c = "''ping''" and a = None and r = response_empty
               and w = world0, OF a a2 a3 a4 a5 a6]
      invokeViaHttp_empty_body_resolves
            [where fetch = "answers response_empty_error" and stringify = stringify_plain
               and c = "''ping''" and a = None and r = response_empty_error
               and w = world0, OF a b2 b3 b4 b5 b6]
    by (simp add: world0_def)
qed

text \<open>
  C10 as the specification words it fails on the body \<open>null\<close>: the status is 200, the
  body is JSON and lacks both fields, and the call throws a \<open>TypeError\<close>, which it
  writes to the error console, instead of succeeding with \<open>undefined\<close>.
\<close>

theorem invokeViaHttp_empty_body_null_counterexample:
  "200 \<le> status response_null \<and> status response_null \<le> 299 \<and>
   json response_null = Inr JNull \<and>
   field JNull ''error'' = None \<and> field JNull ''result'' = None \<and>
   fst (invokeViaHttp stringify_plain (answers response_null) ''ping'' None world0)
     \<noteq> Resolved JUndefined \<and>
   console (snd (invokeViaHttp stringify_plain (answers response_null) ''ping'' None world0)) =
     [ConsoleLog ''ping'' JUndefined,
      ConsoleError ''ping''
        (TypeError (''Cannot read properties of null (reading '' @ [CHR 0x27]
                      @ ''error'' @ [CHR 0x27] @ '')''))]"
  by (simp add: invokeViaHttp_outcome invokeViaHttp_console invoke_response_def answers_def
        response_null_def ok_def world0_def)




text \<open>
  C7, as the code behaves. \<open>invokeViaHttp\<close> does not look at the mode. When the
  mode is \<open>mock\<close> it sends its one request all the same, and the call ends as the
  answer to that request decides: it throws what \<open>fetch\<close> throws when nothing
  answers, and it returns the \<open>result\<close> field when the backend answers with one.
\<close>

theorem invokeViaHttp_ignores_unavailable_mode:
  assumes "mode (getBridgeStatus env) = Mock"
  shows "requests (snd (invokeViaHttp stringify fetch c a w)) =
           requests w @ [invoke_request stringify c a] \<and>
         (\<forall>e. fetch (invoke_request stringify c a) = Inl e \<longrightarrow>
            fst (invokeViaHttp stringify fetch c a w) = Rejected e) \<and>
         (\<forall>r v. fetch (invoke_request stringify c a) = Inr r \<and>
            200 \<le> status r \<and> status r \<le> 299 \<and>
            json r = Inr (response_json \<lparr> result = Some v, error = None \<rparr>) \<longrightarrow>
            fst (invokeViaHttp stringify fetch c a w) = Resolved v)"
  by (simp add: invokeViaHttp_requests invokeViaHttp_outcome invoke_response_def ok_def
        response_json_def)

theorem invokeViaHttp_ignores_unavailable_mode_witness:
  "mode (getBridgeStatus env_foreign) = Mock \<and>
   requests (snd (invokeViaHttp stringify_plain refused ''get_server_status'' None world0)) =
     [invoke_request stringify_plain ''get_server_status'' None] \<and>
   fst (invokeViaHttp stringify_plain refused ''get_server_status'' None world0) =
     Rejected (TypeError ''Failed to fetch'')"
proof -
  have h: "mode (getBridgeStatus env_foreign) = Mock"
    by (simp add: mode_getBridgeStatus marker_present_def isDevBridgeAvailable_def
          env_foreign_def)
  show ?thesis
    using h invokeViaHttp_ignores_unavailable_mode
              [OF h, of stringify_plain refused "''get_server_status''" None world0]
    by (simp add: refused_def world0_def)
qed

text \<open>
  C7 as the specification words it fails: on a production page of a foreign host the mode
  is \<open>mock\<close>, and a call still sends a request and returns what the backend answers.
\<close>

theorem invokeViaHttp_unavailable_counterexample:
  "mode (getBridgeStatus env_foreign) = Mock \<and>
   requests (snd (invokeViaHttp stringify_plain (answers response_result)
                    ''get_server_status'' None world0)) =
     [invoke_request stringify_plain ''get_server_status'' None] \<and>
   fst (invokeViaHttp stringify_plain (answers response_result)
          ''get_server_status'' None world0) = Resolved (JNum 7)"
  by (simp add: mode_getBridgeStatus marker_present_def isDevBridgeAvailable_def
        env_foreign_def invokeViaHttp_requests invokeViaHttp_outcome invoke_response_def
        answers_def response_result_def response_json_def ok_def world0_def)

section \<open>healthCheck\<close>

text \<open>
  C6: whatever \<open>fetch\<close> throws during the probe, \<open>healthCheck\<close> catches it and
  returns \<open>false\<close>; the promise of \<open>healthCheck\<close> is never rejected, whatever
  the network does.
\<close>

theorem healthCheck_catches:
  "(\<forall>e. fetch (health_request stringify) = Inl e \<longrightarrow>
        fst (healthCheck stringify fetch w) = Resolved False) \<and>
   (\<forall>e. fst (healthCheck stringify fetch w) \<noteq> Rejected e)"
  by (simp add: healthCheck_outcome split: sum.splits)

theorem healthCheck_catches_witness:
  "refused (health_request stringify_plain) = Inl (TypeError ''Failed to fetch'') \<and>
   fst (healthCheck stringify_plain refused world0) = Resolved False"
  using healthCheck_catches [of refused stringify_plain world0]
  by (simp add: refused_def)

text \<open>
  C2, as the code behaves. The probe returns \<open>response.ok\<close>: for a response with a
  status from 200 to 299 it returns \<open>true\<close> whatever the body is (the body is not
  read, so an \<open>error\<close> field or a body that is not JSON changes nothing); for a
  response with any other status it returns \<open>false\<close>, as it does when no response
  arrives.
\<close>

theorem healthCheck_reports_response_ok:
  "(\<forall>r. fetch (health_request stringify) = Inr r \<longrightarrow>
        fst (healthCheck stringify fetch w) =
          Resolved (200 \<le> status r \<and> status r \<le> 299)) \<and>
   (\<forall>r r'. fetch (health_request stringify) = Inr r \<and>
        fetch' (health_request stringify) = Inr r' \<and> status r = status r' \<longrightarrow>
        fst (healthCheck stringify fetch' w) = fst (healthCheck stringify fetch w)) \<and>
   (fst (healthCheck stringify fetch w) = Resolved False \<longleftrightarrow>
      (\<forall>r. fetch (health_request stringify) = Inr r \<longrightarrow>
         \<not> (200 \<le> status r \<and> status r \<le> 299)))"
  by (auto simp add: healthCheck_outcome ok_def split: sum.splits)

theorem healthCheck_reports_response_ok_witness:
  "fst (healthCheck stringify_plain (answers response_result) world0) = Resolved True \<and>
   fst (healthCheck stringify_plain (answers response_error) world0) = Resolved True \<and>
   fst (healthCheck stringify_plain (answers response_not_json) world0) = Resolved True \<and>
   fst (healthCheck stringify_plain (answers response_404) world0) = Resolved False"
proof -
  have a: "answers r (health_request stringify_plain) = Inr r" for r
    by (simp add: answers_def)
  have "fst (healthCheck stringify_plain (answers response_result) world0) = Resolved True"
    using healthCheck_reports_response_ok
            [where fetch = "answers response_result" and stringify = stringify_plain
               and w = world0, THEN conjunct1, rule_format, OF a]
    by (simp add: response_result_def)
  moreover
  have "fst (healthCheck stringify_plain (answers response_error) world0) = Resolved True"
    using healthCheck_reports_response_ok
            [where fetch = "answers response_error" and stringify = stringify_plain
               and w = world0, THEN conjunct1, rule_format, OF a]
    by (simp add: response_error_def)
  moreover
  have "fst (healthCheck stringify_plain (answers response_not_json) world0) = Resolved True"
    using healthCheck_reports_response_ok
            [where fetch = "answers response_not_json" and stringify = stringify_plain
               and w = world0, THEN conjunct1, rule_format, OF a]
    by (simp add: response_not_json_def)
  moreover
  have "fst (healthCheck stringify_plain (answers response_404) world0) = Resolved False"
    using healthCheck_reports_response_ok
            [where fetch = "answers response_404" and stringify = stringify_plain
               and w = world0, THEN conjunct1, rule_format, OF a]
    by (simp add: response_404_def)
  ultimately show ?thesis
    by simp
qed

text \<open>
  C2 as the specification words it fails: a response arrives, with status 500, and the
  probe returns \<open>false\<close>.
\<close>

theorem healthCheck_non_2xx_counterexample:
  "answers response_500 (health_request stringify_plain) = Inr response_500 \<and>
   fst (healthCheck stringify_plain (answers response_500) world0) = Resolved False"
  by (simp add: healthCheck_outcome answers_def response_500_def ok_def)

end
